theory Spec2Isabelle
  imports Complex_Main "HOL-Library.Multiset"
begin

section \<open>Text, as the cleaner's Python sees it\<close>

text \<open>
  A Python \<open>str\<close> is modelled as a \<open>string\<close> whose characters are the code points
  below 256 (Latin-1). That range holds everything the cleaner's patterns name: the
  ASCII digits (the only decimal digits below 256), the separators, the currency letters
  and the non-breaking space U+00A0.
\<close>

definition nbsp :: char where
  "nbsp = CHR 0xA0"

definition is_digit :: "char \<Rightarrow> bool" where
  \<comment> \<open>the pattern class \<open>\d\<close>\<close>
  "is_digit c = (let n = (of_char c :: nat) in 48 \<le> n \<and> n \<le> 57)"

definition is_space :: "char \<Rightarrow> bool" where
  \<comment> \<open>\<open>str.isspace\<close>, which is also the pattern class \<open>\s\<close> and what \<open>str.strip\<close> removes\<close>
  "is_space c = (let n = (of_char c :: nat) in
     (9 \<le> n \<and> n \<le> 13) \<or> (28 \<le> n \<and> n \<le> 32) \<or> n = 133 \<or> n = 160)"

definition strip :: "string \<Rightarrow> string" where
  "strip s = rev (dropWhile is_space (rev (dropWhile is_space s)))"

definition lower_char :: "char \<Rightarrow> char" where
  "lower_char c = (let n = (of_char c :: nat) in
     if (65 \<le> n \<and> n \<le> 90) \<or> (192 \<le> n \<and> n \<le> 222 \<and> n \<noteq> 215)
     then char_of (n + 32) else c)"

definition lower :: "string \<Rightarrow> string" where
  "lower s = map lower_char s"

definition upper_char :: "char \<Rightarrow> char" where
  \<comment> \<open>\<open>str.upper\<close> on the ASCII letters; the cleaner only calls it on a matched currency code\<close>
  "upper_char c = (let n = (of_char c :: nat) in
     if 97 \<le> n \<and> n \<le> 122 then char_of (n - 32) else c)"

definition upper :: "string \<Rightarrow> string" where
  "upper s = map upper_char s"

definition remove_char :: "char \<Rightarrow> string \<Rightarrow> string" where
  \<comment> \<open>\<open>s.replace(c, '')\<close>\<close>
  "remove_char c s = filter (\<lambda>x. x \<noteq> c) s"

definition replace_char :: "char \<Rightarrow> char \<Rightarrow> string \<Rightarrow> string" where
  \<comment> \<open>\<open>s.replace(c, d)\<close>\<close>
  "replace_char c d s = map (\<lambda>x. if x = c then d else x) s"

definition endswith :: "string \<Rightarrow> string \<Rightarrow> bool" where
  "endswith s t = (length t \<le> length s \<and> drop (length s - length t) s = t)"

fun comma2_rev :: "string \<Rightarrow> bool" where
  "comma2_rev (b # a # c # _) = (is_digit b \<and> is_digit a \<and> c = CHR '','')"
| "comma2_rev _ = False"

definition search_comma2 :: "string \<Rightarrow> bool" where
  \<comment> \<open>\<open>re.search(r',\d{2}$', s)\<close>: the anchor \<open>$\<close> holds at the end of the text and also
      just before one final line feed\<close>
  "search_comma2 s =
     (let r = rev s in
      comma2_rev r \<or> (case r of [] \<Rightarrow> False | x # r' \<Rightarrow> x = CHR 0x0A \<and> comma2_rev r'))"

section \<open>Floating-point values and the builtin float\<close>

text \<open>
  A Python float is modelled by its exact value: a rational, or one of the three
  non-finite values. Binary rounding, overflow to infinity and the sign of zero are not
  modelled; every arithmetic result below is the exact one.
\<close>

datatype pyfloat = Fin rat | PosInf | NegInf | NaN

definition float_space :: "char \<Rightarrow> bool" where
  \<comment> \<open>the white space \<open>float\<close> skips around its argument\<close>
  "float_space c = (let n = (of_char c :: nat) in
     (9 \<le> n \<and> n \<le> 13) \<or> n = 32 \<or> n = 133 \<or> n = 160)"

definition float_strip :: "string \<Rightarrow> string" where
  "float_strip s = rev (dropWhile float_space (rev (dropWhile float_space s)))"

definition digit_val :: "char \<Rightarrow> nat" where
  "digit_val c = of_char c - 48"

definition digits_val :: "string \<Rightarrow> nat" where
  "digits_val ds = foldl (\<lambda>n c. 10 * n + digit_val c) 0 ds"

fun digitpart :: "string \<Rightarrow> string \<times> string" where
  \<comment> \<open>\<open>digit (["_"] digit)*\<close> at the front: its digits, and the text after it\<close>
  "digitpart [] = ([], [])"
| "digitpart [c] = (if is_digit c then ([c], []) else ([], [c]))"
| "digitpart (c # u # cs) =
     (if \<not> is_digit c then ([], c # u # cs)
      else if u = CHR ''_'' \<and> cs \<noteq> [] \<and> is_digit (hd cs)
        then (case digitpart cs of (ds, r) \<Rightarrow> (c # ds, r))
      else (case digitpart (u # cs) of (ds, r) \<Rightarrow> (c # ds, r)))"

definition parse_exponent :: "string \<Rightarrow> int option" where
  \<comment> \<open>\<open>[("e" | "E") ["+" | "-"] digitpart]\<close>, which must reach the end of the text\<close>
  "parse_exponent s =
     (case s of
        [] \<Rightarrow> Some 0
      | c # r \<Rightarrow>
          if c = CHR ''e'' \<or> c = CHR ''E'' then
            (let neg = (r \<noteq> [] \<and> hd r = CHR ''-'');
                 r' = (if r \<noteq> [] \<and> (hd r = CHR ''+'' \<or> hd r = CHR ''-'') then tl r else r)
             in case digitpart r' of
                  (ds, rest) \<Rightarrow>
                    if ds = [] \<or> rest \<noteq> [] then None
                    else Some (if neg then - int (digits_val ds) else int (digits_val ds)))
          else None)"

definition scale10 :: "nat \<Rightarrow> int \<Rightarrow> rat" where
  "scale10 n e = (if 0 \<le> e then of_nat n * 10 ^ nat e else of_nat n / 10 ^ nat (- e))"

definition parse_floatnumber :: "string \<Rightarrow> rat option" where
  \<comment> \<open>\<open>([digitpart] "." digitpart | digitpart ["."]) [exponent]\<close>\<close>
  "parse_floatnumber s =
     (case digitpart s of
        (ip, r1) \<Rightarrow>
          (case (if r1 \<noteq> [] \<and> hd r1 = CHR ''.'' then digitpart (tl r1) else ([], r1)) of
             (fp, r2) \<Rightarrow>
               if ip = [] \<and> fp = [] then None
               else (case parse_exponent r2 of
                       None \<Rightarrow> None
                     | Some e \<Rightarrow> Some (scale10 (digits_val (ip @ fp)) (e - int (length fp))))))"

definition py_float :: "string \<Rightarrow> pyfloat option" where
  \<comment> \<open>\<open>float(s)\<close> on text; \<open>None\<close> is \<open>ValueError\<close>\<close>
  "py_float s =
     (let t = float_strip s;
          neg = (t \<noteq> [] \<and> hd t = CHR ''-'');
          body = (if t \<noteq> [] \<and> (hd t = CHR ''+'' \<or> hd t = CHR ''-'') then tl t else t)
      in if lower body = ''inf'' \<or> lower body = ''infinity''
           then Some (if neg then NegInf else PosInf)
         else if lower body = ''nan'' then Some NaN
         else (case parse_floatnumber body of
                 None \<Rightarrow> None
               | Some r \<Rightarrow> Some (Fin (if neg then - r else r))))"

section \<open>The numeric parsers\<close>

definition in_amount_class :: "char \<Rightarrow> bool" where
  \<comment> \<open>the pattern class \<open>[\d\s\xa0\.,]\<close>\<close>
  "in_amount_class c =
     (is_digit c \<or> is_space c \<or> c = nbsp \<or> c = CHR ''.'' \<or> c = CHR '','')"

definition match_currency :: "string \<Rightarrow> string option" where
  \<comment> \<open>the optional group \<open>(SEK|EUR|USD|GBP)?\<close> under \<open>re.IGNORECASE\<close>, at the front of the text\<close>
  "match_currency s =
     (if upper (take 3 s) \<in> set [''SEK'', ''EUR'', ''USD'', ''GBP''] then Some (take 3 s)
      else None)"

definition clean_amount_with_currency :: "string option \<Rightarrow> (pyfloat \<times> string) option" where
  \<comment> \<open>The argument is \<open>None\<close> for an empty cell and otherwise the text \<open>str(raw_value)\<close>;
      the result \<open>None\<close> is the pair \<open>(None, None)\<close>.\<close>
  "clean_amount_with_currency raw_value =
     (case raw_value of
        None \<Rightarrow> None
      | Some v \<Rightarrow>
          (let raw = strip v;
               group1 = takeWhile in_amount_class raw;
               group2 = match_currency (dropWhile is_space (dropWhile in_amount_class raw))
           in if group1 = [] then None
              else
                (let amount_str = remove_char (CHR '' '') (remove_char nbsp group1);
                     currency = (case group2 of Some g \<Rightarrow> upper g | None \<Rightarrow> ''SEK'');
                     amount_str = (if search_comma2 amount_str
                                   then replace_char (CHR '','') (CHR ''.'')
                                          (remove_char (CHR ''.'') amount_str)
                                   else remove_char (CHR '','') amount_str)
                 in case py_float amount_str of
                      None \<Rightarrow> None
                    | Some amount \<Rightarrow> Some (amount, currency))))"

datatype number_result = NoValue | Number pyfloat | Literal string

definition clean_number :: "string option \<Rightarrow> number_result" where
  \<comment> \<open>\<open>NoValue\<close> is Python's \<open>None\<close>; \<open>Literal\<close> is a returned text.\<close>
  "clean_number raw_value =
     (case raw_value of
        None \<Rightarrow> NoValue
      | Some v \<Rightarrow>
          (let raw = strip v
           in if endswith raw ''%'' then Literal raw
              else if raw \<in> set ['''', ''n/a'', ''None'', ''-''] then NoValue
              else
                (let cleaned = remove_char (CHR '' '') (remove_char nbsp raw);
                     cleaned = (if search_comma2 cleaned
                                then replace_char (CHR '','') (CHR ''.'')
                                       (remove_char (CHR ''.'') cleaned)
                                else remove_char (CHR '','') cleaned)
                 in case py_float cleaned of
                      Some x \<Rightarrow> Number x
                    | None \<Rightarrow> Literal raw)))"

text \<open>The same two parsers in version 3 of the cleaner.\<close>

definition clean_amount :: "string option \<Rightarrow> (pyfloat \<times> string) option" where
  "clean_amount raw =
     (case raw of
        None \<Rightarrow> None
      | Some v \<Rightarrow>
          (let t = strip v;
               group1 = takeWhile in_amount_class t;
               group2 = match_currency (dropWhile is_space (dropWhile in_amount_class t))
           in if group1 = [] then None
              else
                (let s = remove_char (CHR '' '') (remove_char nbsp group1);
                     cur = (case group2 of Some g \<Rightarrow> upper g | None \<Rightarrow> ''SEK'');
                     s = (if search_comma2 s
                          then replace_char (CHR '','') (CHR ''.'') (remove_char (CHR ''.'') s)
                          else remove_char (CHR '','') s)
                 in case py_float s of
                      None \<Rightarrow> None
                    | Some x \<Rightarrow> Some (x, cur))))"

definition clean_num :: "string option \<Rightarrow> number_result" where
  \<comment> \<open>on a failed conversion version 3 returns its argument itself, not the stripped text\<close>
  "clean_num raw =
     (case raw of
        None \<Rightarrow> NoValue
      | Some v \<Rightarrow>
          (let s = strip v
           in if s \<in> set ['''', ''n/a'', ''None'', ''-''] then NoValue
              else
                (let s = remove_char (CHR '' '') (remove_char nbsp s);
                     s = (if search_comma2 s
                          then replace_char (CHR '','') (CHR ''.'') (remove_char (CHR ''.'') s)
                          else remove_char (CHR '','') s)
                 in case py_float s of
                      Some x \<Rightarrow> Number x
                    | None \<Rightarrow> Literal v)))"

section \<open>The texts the parsers convert\<close>

definition amount_cleaned :: "string \<Rightarrow> string" where
  \<comment> \<open>the amount parser's digit text: the matched group without spaces and U+00A0\<close>
  "amount_cleaned v =
     remove_char (CHR '' '') (remove_char nbsp (takeWhile in_amount_class (strip v)))"

definition amount_currency :: "string \<Rightarrow> string" where
  \<comment> \<open>the amount parser's currency: the matched code in capitals, or SEK\<close>
  "amount_currency v =
     (case match_currency (dropWhile is_space (dropWhile in_amount_class (strip v))) of
        Some g \<Rightarrow> upper g
      | None \<Rightarrow> ''SEK'')"

definition number_cleaned :: "string \<Rightarrow> string" where
  \<comment> \<open>the plain-number parser's digit text: the stripped text without spaces and U+00A0\<close>
  "number_cleaned v = remove_char (CHR '' '') (remove_char nbsp (strip v))"

definition no_value_texts :: "string list" where
  "no_value_texts = ['''', ''n/a'', ''None'', ''-'']"

section \<open>The separator rule in the words of the specification\<close>

definition spec_separator_rule :: "string \<Rightarrow> string" where
  \<comment> \<open>"if the text ends with exactly two digits after a comma, treat comma as decimal
      separator and strip dots; otherwise strip the commas and leave any dot"\<close>
  "spec_separator_rule s =
     (if comma2_rev (rev s)
      then replace_char (CHR '','') (CHR ''.'') (remove_char (CHR ''.'') s)
      else remove_char (CHR '','') s)"

definition code_separator_rule :: "string \<Rightarrow> string" where
  \<comment> \<open>the same rule with the end of the text read as the pattern's \<open>$\<close> reads it\<close>
  "code_separator_rule s =
     (if search_comma2 s
      then replace_char (CHR '','') (CHR ''.'') (remove_char (CHR ''.'') s)
      else remove_char (CHR '','') s)"

section \<open>Arithmetic on amounts\<close>





section \<open>Order book\<close>

text \<open>
  A cell value is empty, a number, a text or a date-time; a date-time is counted in
  microseconds from a fixed origin, so that subtracting two of them is exact.
\<close>

datatype cell = Empty | Num rat | Text string | DateTime int



record 'a order =
  ordernr :: cell
  orderdatum :: "int option"
  kundnamn :: cell
  status :: cell
  fakt_status :: cell
  belopp :: 'a
  valuta :: string
  belopp_sek :: 'a

definition DEFAULT_FX_RATES :: "string \<rightharpoonup> pyfloat" where
  "DEFAULT_FX_RATES =
     [''SEK'' \<mapsto> Fin 1, ''EUR'' \<mapsto> Fin (1120 / 100), ''USD'' \<mapsto> Fin (1050 / 100),
      ''GBP'' \<mapsto> Fin (1330 / 100)]"



section \<open>Order book analytics\<close>

record 'a aging_alert =
  alert_ordernr :: cell
  alert_kundnamn :: cell
  alert_orderdatum :: int
  days_old :: int
  months_old :: int
  alert_belopp_sek :: 'a

definition timedelta_days :: "int \<Rightarrow> int \<Rightarrow> int" where
  \<comment> \<open>\<open>(a - b).days\<close>: whole days, rounded down\<close>
  "timedelta_days a b = (a - b) div 86400000000"

fun aging_alerts :: "'a order list \<Rightarrow> int \<Rightarrow> 'a aging_alert list" where
  "aging_alerts [] today = []"
| "aging_alerts (order # orders) today =
     (case orderdatum order of
        None \<Rightarrow> aging_alerts orders today
      | Some d \<Rightarrow>
          (let days = timedelta_days today d
           in if days > 90
              then \<lparr>alert_ordernr = ordernr order, alert_kundnamn = kundnamn order,
                    alert_orderdatum = d, days_old = days, months_old = days div 30,
                    alert_belopp_sek = belopp_sek order\<rparr> # aging_alerts orders today
              else aging_alerts orders today))"

definition analyze_order_aging :: "'a order list \<Rightarrow> int \<Rightarrow> 'a aging_alert list" where
  \<comment> \<open>\<open>sorted(..., reverse=True)\<close> is stable: it is the stable sort on the negated key\<close>
  "analyze_order_aging orders today = sort_key (\<lambda>x. - days_old x) (aging_alerts orders today)"

datatype py_error = ZeroDivisionError | KeyError

definition py_div :: "rat \<Rightarrow> rat \<Rightarrow> py_error + rat" where
  "py_div a b = (if b = 0 then Inl ZeroDivisionError else Inr (a / b))"

fun add_total :: "'k \<Rightarrow> rat \<Rightarrow> ('k \<times> rat) list \<Rightarrow> ('k \<times> rat) list" where
  \<comment> \<open>\<open>customer_totals[k] += v\<close> on a \<open>defaultdict(float)\<close>, kept in insertion order\<close>
  "add_total k v [] = [(k, 0 + v)]"
| "add_total k v ((k', t) # kts) =
     (if k' = k then (k', t + v) # kts else (k', t) # add_total k v kts)"

definition customer_totals :: "rat order list \<Rightarrow> (cell \<times> rat) list" where
  "customer_totals orders = foldl (\<lambda>m order. add_total (kundnamn order) (belopp_sek order) m) [] orders"

fun top_rows :: "(cell \<times> rat) list \<Rightarrow> rat \<Rightarrow> py_error + (cell \<times> rat \<times> rat) list" where
  \<comment> \<open>\<open>[(name, amt, amt/total*100) for name, amt in ...]\<close>\<close>
  "top_rows [] tot = Inr []"
| "top_rows ((name, amt) # rest) tot =
     (case py_div amt tot of
        Inl e \<Rightarrow> Inl e
      | Inr q \<Rightarrow> (case top_rows rest tot of
                    Inl e \<Rightarrow> Inl e
                  | Inr rows \<Rightarrow> Inr ((name, amt, q * 100) # rows)))"

definition analyze_customer_concentration ::
    "rat order list \<Rightarrow> py_error + ((cell \<times> rat \<times> rat) list \<times> rat \<times> rat)" where
  \<comment> \<open>on orders whose amounts are finite\<close>
  "analyze_customer_concentration orders =
     (let totals = customer_totals orders;
          tot = sum_list (map snd totals)
      in if tot = 0 then Inr ([], 0, 0)
         else
           (let sorted_customers = sort_key (\<lambda>x. - snd x) totals
            in case top_rows (take 5 sorted_customers) tot of
                 Inl e \<Rightarrow> Inl e
               | Inr top_5 \<Rightarrow>
                   (case py_div (sum_list (map snd (take 3 sorted_customers))) tot of
                      Inl e \<Rightarrow> Inl e
                    | Inr q3 \<Rightarrow>
                        (if sorted_customers \<noteq> []
                         then (case py_div (snd (hd sorted_customers)) tot of
                                 Inl e \<Rightarrow> Inl e
                               | Inr q1 \<Rightarrow> Inr (top_5, q3 * 100, q1 * 100))
                         else Inr (top_5, q3 * 100, 0)))))"

section \<open>Sheet lookup\<close>






section \<open>Sales intelligence (version 2)\<close>

record sales_customer =
  kund :: cell
  ltm_now :: rat
  ltm_prev :: rat
  change :: rat

definition master_row :: "cell \<Rightarrow> rat \<Rightarrow> rat \<Rightarrow> sales_customer" where
  \<comment> \<open>the record \<open>parse_sales_master\<close> appends for a customer row\<close>
  "master_row k now prev = \<lparr>kund = k, ltm_now = now, ltm_prev = prev, change = now - prev\<rparr>"

record sales_analysis =
  total_now :: rat
  total_prev :: rat
  total_change :: rat
  pct_change :: rat
  active :: "sales_customer list"
  churned :: "sales_customer list"
  declining :: "sales_customer list"
  growing :: "sales_customer list"
  new_customers :: "sales_customer list"
  churn_revenue :: rat
  decline_revenue :: rat
  growth_revenue :: rat
  new_revenue :: rat
  top10_pct :: rat
  top20_pct :: rat
  top20 :: "sales_customer list"

definition analyze_sales_intelligence :: "sales_customer list \<Rightarrow> sales_analysis" where
  "analyze_sales_intelligence customers =
     (let total_now_v = sum_list (map ltm_now customers);
          total_prev_v = sum_list (map ltm_prev customers);
          total_change_v = total_now_v - total_prev_v;
          pct_change_v = (if total_prev_v > 0 then total_change_v / total_prev_v * 100 else 0);
          active_v = filter (\<lambda>c. ltm_now c > 0) customers;
          churned_v = filter (\<lambda>c. ltm_prev c > 50000 \<and> ltm_now c = 0) customers;
          declining_v = filter (\<lambda>c. ltm_prev c > ltm_now c \<and> ltm_now c > 0 \<and> change c < - 20000)
                          customers;
          growing_v = filter (\<lambda>c. change c > 20000) customers;
          new_customers_v = filter (\<lambda>c. ltm_prev c = 0 \<and> ltm_now c > 10000) customers;
          churn_revenue_v = sum_list (map ltm_prev churned_v);
          decline_revenue_v = sum_list (map (\<lambda>c. \<bar>change c\<bar>) declining_v);
          growth_revenue_v = sum_list (map change growing_v);
          new_revenue_v = sum_list (map ltm_now new_customers_v);
          sorted_cust = sort_key (\<lambda>x. - ltm_now x) active_v;
          top10_rev = sum_list (map ltm_now (take 10 sorted_cust));
          top20_rev = sum_list (map ltm_now (take 20 sorted_cust))
      in \<lparr>total_now = total_now_v, total_prev = total_prev_v, total_change = total_change_v,
          pct_change = pct_change_v, active = active_v,
          churned = sort_key (\<lambda>x. - ltm_prev x) churned_v,
          declining = sort_key change declining_v,
          growing = sort_key (\<lambda>x. - change x) growing_v,
          new_customers = sort_key (\<lambda>x. - ltm_now x) new_customers_v,
          churn_revenue = churn_revenue_v, decline_revenue = decline_revenue_v,
          growth_revenue = growth_revenue_v, new_revenue = new_revenue_v,
          top10_pct = (if total_now_v > 0 then top10_rev / total_now_v * 100 else 0),
          top20_pct = (if total_now_v > 0 then top20_rev / total_now_v * 100 else 0),
          top20 = take 20 sorted_cust\<rparr>)"

section \<open>Cohorts and the revenue bridge (version 3)\<close>

text \<open>
  A master customer carries its name, its revenue per trailing-twelve-months label and
  the churn marker. The loaded data holds the customers and the per-label totals that
  \<open>parse_master\<close> derives from them; the monthly and fiscal-year figures are not read by
  the functions below.
\<close>

record master_customer =
  mc_kund :: string
  mc_ltm :: "string \<rightharpoonup> rat"
  mc_churned :: bool

record master_data =
  md_customers :: "master_customer list"
  md_ltm_trend :: "string \<rightharpoonup> rat"

definition dict_get :: "('k \<rightharpoonup> rat) \<Rightarrow> 'k \<Rightarrow> rat" where
  \<comment> \<open>\<open>d.get(k, 0)\<close>\<close>
  "dict_get d k = (case d k of Some v \<Rightarrow> v | None \<Rightarrow> 0)"

definition ltm_trend_of :: "master_customer list \<Rightarrow> (string \<rightharpoonup> rat)" where
  \<comment> \<open>the last loop of \<open>parse_master\<close>: for every label some customer has, the sum of
      \<open>c['ltm'].get(l, 0)\<close> over the customers\<close>
  "ltm_trend_of cs =
     (\<lambda>l. if list_ex (\<lambda>c. mc_ltm c l \<noteq> None) cs
          then Some (sum_list (map (\<lambda>c. dict_get (mc_ltm c) l) cs))
          else None)"

definition parse_master_customers :: "master_customer list \<Rightarrow> master_data" where
  "parse_master_customers cs = \<lparr>md_customers = cs, md_ltm_trend = ltm_trend_of cs\<rparr>"

record churned_row =
  cr_kund :: string
  cr_previous :: rat
  cr_current :: rat
  cr_change :: rat

record new_row =
  nr_kund :: string
  nr_current :: rat

record moved_row =
  mr_kund :: string
  mr_previous :: rat
  mr_current :: rat
  mr_change :: rat
  mr_pct :: rat

record cohorts =
  co_churned :: "churned_row list"
  co_declining :: "moved_row list"
  co_growing :: "moved_row list"
  co_new :: "new_row list"

definition cohort_step :: "string \<Rightarrow> string \<Rightarrow> cohorts \<Rightarrow> master_customer \<Rightarrow> cohorts" where
  \<comment> \<open>one pass of the loop body of \<open>analyze_cohorts\<close>\<close>
  "cohort_step curr_lbl prev_lbl acc c =
     (let cur_v = dict_get (mc_ltm c) curr_lbl;
          pre_v = dict_get (mc_ltm c) prev_lbl;
          chg = cur_v - pre_v
      in if mc_churned c \<or> (pre_v > 0 \<and> cur_v = 0)
           then acc\<lparr>co_churned := co_churned acc @
                  [\<lparr>cr_kund = mc_kund c, cr_previous = pre_v, cr_current = cur_v, cr_change = chg\<rparr>]\<rparr>
         else if pre_v = 0 \<and> cur_v > 0
           then acc\<lparr>co_new := co_new acc @ [\<lparr>nr_kund = mc_kund c, nr_current = cur_v\<rparr>]\<rparr>
         else if chg < 0
           then acc\<lparr>co_declining := co_declining acc @
                  [\<lparr>mr_kund = mc_kund c, mr_previous = pre_v, mr_current = cur_v, mr_change = chg,
                    mr_pct = (if pre_v > 0 then chg / pre_v * 100 else 0)\<rparr>]\<rparr>
         else if chg > 0
           then acc\<lparr>co_growing := co_growing acc @
                  [\<lparr>mr_kund = mc_kund c, mr_previous = pre_v, mr_current = cur_v, mr_change = chg,
                    mr_pct = (if pre_v > 0 then chg / pre_v * 100 else 0)\<rparr>]\<rparr>
         else acc)"

definition analyze_cohorts :: "master_data \<Rightarrow> string \<Rightarrow> string \<Rightarrow> cohorts" where
  "analyze_cohorts data curr_lbl prev_lbl =
     (let acc = foldl (cohort_step curr_lbl prev_lbl)
                  \<lparr>co_churned = [], co_declining = [], co_growing = [], co_new = []\<rparr>
                  (md_customers data)
      in \<lparr>co_churned = sort_key (\<lambda>x. - cr_previous x) (co_churned acc),
          co_declining = sort_key mr_change (co_declining acc),
          co_growing = sort_key (\<lambda>x. - mr_change x) (co_growing acc),
          co_new = sort_key (\<lambda>x. - nr_current x) (co_new acc)\<rparr>)"



text \<open>
  The cohort rules in the words of the specification; the fifth bucket, which the code
  never materialises, is the customers it leaves out.
\<close>

definition spec_flat_customers :: "master_data \<Rightarrow> string \<Rightarrow> string \<Rightarrow> string list" where
  \<comment> \<open>flat: no churn marker and the two periods' revenues are equal\<close>
  "spec_flat_customers data curr_lbl prev_lbl =
     map mc_kund (filter (\<lambda>c. \<not> mc_churned c \<and> dict_get (mc_ltm c) curr_lbl = dict_get (mc_ltm c) prev_lbl)
                    (md_customers data))"

section \<open>Measures used in the proofs\<close>


definition cohort_names :: "cohorts \<Rightarrow> string multiset" where
  "cohort_names acc =
     mset (map cr_kund (co_churned acc)) + mset (map mr_kund (co_declining acc))
     + mset (map mr_kund (co_growing acc)) + mset (map nr_kund (co_new acc))"

definition cohort_net :: "cohorts \<Rightarrow> rat" where
  "cohort_net acc =
     sum_list (map mr_change (co_declining acc)) + sum_list (map mr_change (co_growing acc))
     + sum_list (map nr_current (co_new acc)) - sum_list (map cr_previous (co_churned acc))"

section \<open>Example inputs\<close>

definition example_today :: int where
  \<comment> \<open>day 200 of the date-time scale, at midnight\<close>
  "example_today = 200 * 86400000000"

definition example_order :: "rat \<Rightarrow> int option \<Rightarrow> rat order" where
  "example_order n d =
     \<lparr>ordernr = Num n, orderdatum = d, kundnamn = Text ''A'', status = Empty,
      fakt_status = Text [], belopp = 100, valuta = ''SEK'', belopp_sek = 100\<rparr>"

definition example_orders :: "rat order list" where
  \<comment> \<open>orders placed 91 days ago, 90 days ago, without a date, and 200 days ago\<close>
  "example_orders =
     [example_order 1 (Some (109 * 86400000000)), example_order 2 (Some (110 * 86400000000)),
      example_order 3 None, example_order 4 (Some 0)]"

definition example_ltm :: "rat \<Rightarrow> rat \<Rightarrow> (string \<rightharpoonup> rat)" where
  \<comment> \<open>revenue under two labels; as in \<open>parse_master\<close>, a zero is not stored\<close>
  "example_ltm pre cur =
     (\<lambda>l. if l = ''LTM 2024'' \<and> pre \<noteq> 0 then Some pre
          else if l = ''LTM 2025'' \<and> cur \<noteq> 0 then Some cur
          else None)"

definition example_customer :: "string \<Rightarrow> rat \<Rightarrow> rat \<Rightarrow> bool \<Rightarrow> master_customer" where
  \<comment> \<open>a customer with the given previous and current trailing-twelve-months revenue\<close>
  "example_customer name pre cur marked =
     \<lparr>mc_kund = name, mc_ltm = example_ltm pre cur, mc_churned = marked\<rparr>"

definition example_customers :: "master_customer list" where
  \<comment> \<open>two churned customers (one marked), one new, one declining, one growing, one flat\<close>
  "example_customers =
     [example_customer ''A'' 100 0 True, example_customer ''B'' 100 0 False,
      example_customer ''C'' 0 70 False, example_customer ''D'' 100 60 False,
      example_customer ''E'' 50 90 False, example_customer ''F'' 30 30 False]"





section \<open>Customer concentration\<close>

lemma sum_add_total: "sum_list (map snd (add_total k v m)) = sum_list (map snd m) + v"
  by (induction m) auto

lemma sum_customer_totals_aux:
  "sum_list (map snd (foldl (\<lambda>m order. add_total (kundnamn order) (belopp_sek order) m) m0 orders))
     = sum_list (map snd m0) + sum_list (map belopp_sek orders)"
  by (induction orders arbitrary: m0) (auto simp: sum_add_total)

lemma sum_customer_totals:
  "sum_list (map snd (customer_totals orders)) = sum_list (map belopp_sek orders)"
  by (simp add: customer_totals_def sum_customer_totals_aux)

lemma top_rows_ok: "tot \<noteq> 0 \<Longrightarrow> \<exists>rows. top_rows xs tot = Inr rows"
  by (induction xs tot rule: top_rows.induct) (auto simp: py_div_def)

lemma concentration_total: "\<exists>r. analyze_customer_concentration orders = Inr r"
proof (cases "sum_list (map snd (customer_totals orders)) = 0")
  case True
  then show ?thesis by (simp add: analyze_customer_concentration_def)
next
  case False
  obtain rows where "top_rows (take 5 (sort_key (\<lambda>x. - snd x) (customer_totals orders)))
      (sum_list (map snd (customer_totals orders))) = Inr rows"
    using top_rows_ok[OF False] by blast
  with False show ?thesis
    by (simp add: analyze_customer_concentration_def Let_def py_div_def)
qed

text \<open>
  Claim C9. The per-customer totals add up to the sum of the orders' amounts. When that
  grand total is zero the analysis returns the empty top-5 report with a combined top-3
  percentage of zero (and a top-1 percentage of zero); and on every order list it returns
  a result, never a division error.
\<close>

theorem concentration_zero_total:
  "(sum_list (map belopp_sek orders) = 0 \<longrightarrow>
      sum_list (map snd (customer_totals orders)) = 0 \<and>
      analyze_customer_concentration orders = Inr ([], 0, 0))
   \<and> (\<exists>r. analyze_customer_concentration orders = Inr r)"
  using concentration_total[of orders]
  by (simp add: analyze_customer_concentration_def sum_customer_totals)

theorem concentration_zero_total_witness:
  "sum_list (map belopp_sek
     [\<lparr>ordernr = Num 1, orderdatum = None, kundnamn = Text ''A'', status = Empty,
       fakt_status = Text [], belopp = 0, valuta = ''SEK'', belopp_sek = (0::rat)\<rparr>,
      \<lparr>ordernr = Num 2, orderdatum = None, kundnamn = Text ''B'', status = Empty,
       fakt_status = Text [], belopp = 0, valuta = ''SEK'', belopp_sek = 0\<rparr>]) = 0
   \<and> analyze_customer_concentration
     [\<lparr>ordernr = Num 1, orderdatum = None, kundnamn = Text ''A'', status = Empty,
       fakt_status = Text [], belopp = 0, valuta = ''SEK'', belopp_sek = (0::rat)\<rparr>,
      \<lparr>ordernr = Num 2, orderdatum = None, kundnamn = Text ''B'', status = Empty,
       fakt_status = Text [], belopp = 0, valuta = ''SEK'', belopp_sek = 0\<rparr>] = Inr ([], 0, 0)"
  using concentration_zero_total[of
     "[\<lparr>ordernr = Num 1, orderdatum = None, kundnamn = Text ''A'', status = Empty,
       fakt_status = Text [], belopp = 0, valuta = ''SEK'', belopp_sek = (0::rat)\<rparr>,
      \<lparr>ordernr = Num 2, orderdatum = None, kundnamn = Text ''B'', status = Empty,
       fakt_status = Text [], belopp = 0, valuta = ''SEK'', belopp_sek = 0\<rparr>]"]
  by simp

section \<open>Material movements in version 2\<close>

text \<open>
  Claim C5. A customer with no revenue in the previous period and 30000 in the current
  one is listed by the material-movement analysis both as new and as growing, and its
  revenue is counted in both the new and the growth revenue.
\<close>

theorem material_new_also_growing:
  "master_row (Text ''A'') 30000 0
     \<in> set (new_customers (analyze_sales_intelligence [master_row (Text ''A'') 30000 0]))
   \<and> master_row (Text ''A'') 30000 0
     \<in> set (growing (analyze_sales_intelligence [master_row (Text ''A'') 30000 0]))
   \<and> growth_revenue (analyze_sales_intelligence [master_row (Text ''A'') 30000 0]) = 30000
   \<and> new_revenue (analyze_sales_intelligence [master_row (Text ''A'') 30000 0]) = 30000"
  by (simp add: analyze_sales_intelligence_def master_row_def Let_def)

section \<open>Sheet lookup\<close>







section \<open>Order aging\<close>

lemma aging_alerts_set:
  "a \<in> set (aging_alerts orders today) \<longleftrightarrow>
     (\<exists>order \<in> set orders. \<exists>d. orderdatum order = Some d \<and> timedelta_days today d > 90 \<and>
        a = \<lparr>alert_ordernr = ordernr order, alert_kundnamn = kundnamn order,
             alert_orderdatum = d, days_old = timedelta_days today d,
             months_old = timedelta_days today d div 30,
             alert_belopp_sek = belopp_sek order\<rparr>)"
  by (induction orders) (auto simp: Let_def split: option.splits)

lemma aging_alerts_length:
  "length (aging_alerts orders today) =
     length (filter (\<lambda>order. \<exists>d. orderdatum order = Some d \<and> timedelta_days today d > 90) orders)"
  by (induction orders) (auto simp: Let_def split: option.splits)

lemma sorted_descending:
  fixes f :: "'a \<Rightarrow> int"
  shows "sorted (rev (map f (sort_key (\<lambda>x. - f x) xs)))"
proof -
  have "sorted (map (\<lambda>x. - f x) (sort_key (\<lambda>x. - f x) xs))" by (rule sorted_sort_key)
  then have "sorted_wrt (\<lambda>x y. f y \<le> f x) (sort_key (\<lambda>x. - f x) xs)"
    by (simp add: sorted_wrt_map)
  then show ?thesis
    by (simp add: sorted_wrt_rev rev_map[symmetric] sorted_wrt_map)
qed

text \<open>
  Claim C8. The aging analysis returns exactly the alerts of the orders that have a date
  and are more than 90 whole days old: an alert is in the result iff it is the alert of
  such an order, there are as many alerts as such orders, and the result is sorted by
  \<open>days_old\<close>, largest first. Orders without a date yield no alert. In the example an
  order 91 days old is reported and one 90 days old is not.
\<close>

theorem aging_over_90_days:
  "(a \<in> set (analyze_order_aging orders today) \<longleftrightarrow>
     (\<exists>order \<in> set orders. \<exists>d. orderdatum order = Some d \<and> timedelta_days today d > 90 \<and>
        a = \<lparr>alert_ordernr = ordernr order, alert_kundnamn = kundnamn order,
             alert_orderdatum = d, days_old = timedelta_days today d,
             months_old = timedelta_days today d div 30,
             alert_belopp_sek = belopp_sek order\<rparr>))
   \<and> length (analyze_order_aging orders today) =
       length (filter (\<lambda>order. \<exists>d. orderdatum order = Some d \<and> timedelta_days today d > 90) orders)
   \<and> sorted (rev (map days_old (analyze_order_aging orders today)))"
  unfolding analyze_order_aging_def
  using aging_alerts_set[of a orders today] aging_alerts_length[of orders today]
        sorted_descending[of days_old "aging_alerts orders today"]
  by simp

theorem aging_over_90_days_witness:
  "map days_old (analyze_order_aging example_orders example_today) = [200, 91]
   \<and> length (analyze_order_aging example_orders example_today) =
       length (filter (\<lambda>order. \<exists>d. orderdatum order = Some d \<and> timedelta_days example_today d > 90)
                 example_orders)
   \<and> (\<exists>order \<in> set example_orders. orderdatum order = Some (110 * 86400000000)
         \<and> timedelta_days example_today (110 * 86400000000) = 90)
   \<and> (\<exists>order \<in> set example_orders. orderdatum order = None)"
  using aging_over_90_days[of undefined example_orders example_today]
  by (simp add: example_orders_def example_order_def example_today_def timedelta_days_def
      analyze_order_aging_def)

section \<open>Cohorts and the revenue bridge\<close>




lemma cohort_step_names:
  "cohort_names (cohort_step curr_lbl prev_lbl acc c) =
     cohort_names acc +
       (if \<not> mc_churned c \<and> dict_get (mc_ltm c) curr_lbl = dict_get (mc_ltm c) prev_lbl
        then {#} else {#mc_kund c#})"
  by (auto simp: cohort_step_def cohort_names_def Let_def)

lemma cohort_fold_names:
  "cohort_names (foldl (cohort_step curr_lbl prev_lbl) acc cs) =
     cohort_names acc +
       mset (map mc_kund (filter (\<lambda>c. \<not> (\<not> mc_churned c \<and>
               dict_get (mc_ltm c) curr_lbl = dict_get (mc_ltm c) prev_lbl)) cs))"
  by (induction cs arbitrary: acc) (simp_all add: cohort_step_names)







lemma cohort_empty_measures:
  "cohort_net \<lparr>co_churned = [], co_declining = [], co_growing = [], co_new = []\<rparr> = 0"
  "cohort_names \<lparr>co_churned = [], co_declining = [], co_growing = [], co_new = []\<rparr> = {#}"
  by (simp_all add: cohort_net_def cohort_names_def)




lemma mset_map_filter_split:
  "mset (map f (filter P xs)) + mset (map f (filter (\<lambda>x. \<not> P x) xs)) = mset (map f xs)"
  by (induction xs) auto

lemma analyze_cohorts_names:
  "cohort_names (analyze_cohorts data curr_lbl prev_lbl) + mset (spec_flat_customers data curr_lbl prev_lbl)
     = mset (map mc_kund (md_customers data))"
proof -
  have "cohort_names (analyze_cohorts data curr_lbl prev_lbl) =
      cohort_names (foldl (cohort_step curr_lbl prev_lbl)
        \<lparr>co_churned = [], co_declining = [], co_growing = [], co_new = []\<rparr> (md_customers data))"
    by (simp add: analyze_cohorts_def cohort_names_def Let_def)
  then show ?thesis
    using mset_map_filter_split[of mc_kund "\<lambda>c. \<not> (\<not> mc_churned c \<and>
               dict_get (mc_ltm c) curr_lbl = dict_get (mc_ltm c) prev_lbl)" "md_customers data"]
    by (simp add: cohort_fold_names cohort_empty_measures spec_flat_customers_def)
qed

text \<open>
  Claim C2. For every data set and pair of labels, the names in the churned, declining,
  growing and new lists of \<open>analyze_cohorts\<close>, together with the names of the flat
  customers (no churn marker, equal revenue in both periods), are the input customers'
  names, each as often as it occurs in the input: every customer is in exactly one of the
  five buckets and none is left out. When the customers are keyed by name (no name occurs
  twice) no name occurs twice in the five lists together, so the buckets' name sets are
  pairwise disjoint.
\<close>

theorem cohorts_partition:
  "mset (map cr_kund (co_churned (analyze_cohorts data curr_lbl prev_lbl))
         @ map mr_kund (co_declining (analyze_cohorts data curr_lbl prev_lbl))
         @ map mr_kund (co_growing (analyze_cohorts data curr_lbl prev_lbl))
         @ map nr_kund (co_new (analyze_cohorts data curr_lbl prev_lbl))
         @ spec_flat_customers data curr_lbl prev_lbl)
     = mset (map mc_kund (md_customers data))
   \<and> (distinct (map mc_kund (md_customers data)) \<longrightarrow>
        distinct (map cr_kund (co_churned (analyze_cohorts data curr_lbl prev_lbl))
         @ map mr_kund (co_declining (analyze_cohorts data curr_lbl prev_lbl))
         @ map mr_kund (co_growing (analyze_cohorts data curr_lbl prev_lbl))
         @ map nr_kund (co_new (analyze_cohorts data curr_lbl prev_lbl))
         @ spec_flat_customers data curr_lbl prev_lbl))"
proof -
  let ?all = "map cr_kund (co_churned (analyze_cohorts data curr_lbl prev_lbl))
         @ map mr_kund (co_declining (analyze_cohorts data curr_lbl prev_lbl))
         @ map mr_kund (co_growing (analyze_cohorts data curr_lbl prev_lbl))
         @ map nr_kund (co_new (analyze_cohorts data curr_lbl prev_lbl))
         @ spec_flat_customers data curr_lbl prev_lbl"
  have eq: "mset ?all = mset (map mc_kund (md_customers data))"
    using analyze_cohorts_names[of data curr_lbl prev_lbl]
    by (simp add: cohort_names_def ac_simps)
  moreover have "distinct (map mc_kund (md_customers data)) \<longrightarrow> distinct ?all"
    using eq mset_eq_imp_distinct_iff by blast
  ultimately show ?thesis by blast
qed


theorem cohorts_partition_witness:
  "distinct (map mc_kund (md_customers (parse_master_customers example_customers)))
   \<and> map cr_kund (co_churned (analyze_cohorts (parse_master_customers example_customers)
         ''LTM 2025'' ''LTM 2024'')) = [''A'', ''B'']
   \<and> map mr_kund (co_declining (analyze_cohorts (parse_master_customers example_customers)
         ''LTM 2025'' ''LTM 2024'')) = [''D'']
   \<and> map mr_kund (co_growing (analyze_cohorts (parse_master_customers example_customers)
         ''LTM 2025'' ''LTM 2024'')) = [''E'']
   \<and> map nr_kund (co_new (analyze_cohorts (parse_master_customers example_customers)
         ''LTM 2025'' ''LTM 2024'')) = [''C'']
   \<and> spec_flat_customers (parse_master_customers example_customers) ''LTM 2025'' ''LTM 2024'' = [''F'']
   \<and> mset [''A'', ''B'', ''D'', ''E'', ''C'', ''F'']
       = mset (map mc_kund (md_customers (parse_master_customers example_customers)))"
  using cohorts_partition[of "parse_master_customers example_customers" "''LTM 2025''" "''LTM 2024''"]
  by (simp add: analyze_cohorts_def cohort_step_def parse_master_customers_def
      example_customers_def example_customer_def example_ltm_def dict_get_def spec_flat_customers_def Let_def)

section \<open>Facts about the parsers\<close>







lemma clean_amount_with_currency_eq:
  "clean_amount_with_currency (Some v) =
     (if takeWhile in_amount_class (strip v) = [] then None
      else map_option (\<lambda>x. (x, amount_currency v))
             (py_float (code_separator_rule (amount_cleaned v))))"
  by (simp add: clean_amount_with_currency_def amount_currency_def amount_cleaned_def
      code_separator_rule_def Let_def split: option.splits)

lemma clean_amount_eq: "clean_amount raw = clean_amount_with_currency raw"
  by (simp add: clean_amount_def clean_amount_with_currency_def)

lemma clean_number_eq:
  "clean_number (Some v) =
     (if endswith (strip v) ''%'' then Literal (strip v)
      else if strip v \<in> set no_value_texts then NoValue
      else (case py_float (code_separator_rule (number_cleaned v)) of
              Some x \<Rightarrow> Number x
            | None \<Rightarrow> Literal (strip v)))"
  by (simp add: clean_number_def number_cleaned_def code_separator_rule_def no_value_texts_def
      Let_def)

lemma clean_num_eq:
  "clean_num (Some v) =
     (if strip v \<in> set no_value_texts then NoValue
      else (case py_float (code_separator_rule (number_cleaned v)) of
              Some x \<Rightarrow> Number x
            | None \<Rightarrow> Literal v))"
  by (simp add: clean_num_def number_cleaned_def code_separator_rule_def no_value_texts_def
      Let_def)




lemmas text_eval =
  strip_def is_space_def is_digit_def nbsp_def in_amount_class_def remove_char_def
  replace_char_def endswith_def search_comma2_def float_strip_def float_space_def
  lower_def lower_char_def upper_def upper_char_def digit_val_def digits_val_def
  parse_exponent_def scale10_def parse_floatnumber_def py_float_def match_currency_def
  amount_cleaned_def amount_currency_def number_cleaned_def no_value_texts_def
  code_separator_rule_def spec_separator_rule_def Let_def



section \<open>Order book extraction\<close>














section \<open>The separator rule and the no-value cases\<close>














lemma no_value_amount:
  assumes "strip v \<in> set no_value_texts"
  shows "takeWhile in_amount_class (strip v) = []" and "\<not> endswith (strip v) ''%''"
proof -
  have "\<not> in_amount_class (CHR ''n'')" "\<not> in_amount_class (CHR ''N'')" "\<not> in_amount_class (CHR ''-'')"
    by (simp_all add: in_amount_class_def is_digit_def is_space_def nbsp_def)
  then show "takeWhile in_amount_class (strip v) = []"
    using assms by (auto simp: no_value_texts_def)
  show "\<not> endswith (strip v) ''%''"
    using assms by (auto simp: no_value_texts_def endswith_def)
qed

text \<open>
  Claim C4, as amended. The amount parsers return the null pair for an absent input, for
  an input that is one of the no-value texts after stripping (the empty text, "n/a",
  "None", "-"), for an input with no digit group at its front, and for one whose digit
  text does not convert. The plain-number parsers return null for an absent input and
  for the no-value texts; a text whose digit text does not convert is returned as it is
  (stripped in version 2, untouched in version 3), and version 2 returns a text that ends
  in a percent sign as it is.
\<close>

theorem parsers_no_value:
  "clean_amount_with_currency None = None \<and> clean_amount None = None
   \<and> clean_number None = NoValue \<and> clean_num None = NoValue
   \<and> (strip v \<in> set no_value_texts \<longrightarrow>
        clean_amount_with_currency (Some v) = None \<and> clean_amount (Some v) = None
        \<and> clean_number (Some v) = NoValue \<and> clean_num (Some v) = NoValue)
   \<and> (takeWhile in_amount_class (strip v) = [] \<or>
        py_float (code_separator_rule (amount_cleaned v)) = None \<longrightarrow>
        clean_amount_with_currency (Some v) = None \<and> clean_amount (Some v) = None)
   \<and> (endswith (strip v) ''%'' \<longrightarrow> clean_number (Some v) = Literal (strip v))
   \<and> (\<not> endswith (strip v) ''%'' \<and> strip v \<notin> set no_value_texts
        \<and> py_float (code_separator_rule (number_cleaned v)) = None \<longrightarrow>
        clean_number (Some v) = Literal (strip v))
   \<and> (strip v \<notin> set no_value_texts
        \<and> py_float (code_separator_rule (number_cleaned v)) = None \<longrightarrow>
        clean_num (Some v) = Literal v)"
proof -
  have "clean_amount_with_currency None = None \<and> clean_amount None = None
      \<and> clean_number None = NoValue \<and> clean_num None = NoValue"
    by (simp add: clean_amount_with_currency_def clean_amount_def clean_number_def clean_num_def)
  then show ?thesis
    using no_value_amount[of v]
    by (auto simp: clean_amount_with_currency_eq clean_amount_eq clean_number_eq clean_num_eq)
qed

lemma no_value_eval:
  "strip ''n/a'' \<in> set no_value_texts"
  "takeWhile in_amount_class (strip ''1.2.3'') \<noteq> []"
  "py_float (code_separator_rule (amount_cleaned ''1.2.3'')) = None"
  "py_float (code_separator_rule (number_cleaned ''1.2.3'')) = None"
  "\<not> endswith (strip ''1.2.3'') ''%''"
  "strip ''1.2.3'' \<notin> set no_value_texts"
  "strip ''1.2.3'' = ''1.2.3''"
  by (simp_all add: text_eval)

theorem parsers_no_value_witness:
  "clean_amount_with_currency (Some ''n/a'') = None \<and> clean_number (Some ''n/a'') = NoValue
   \<and> clean_num (Some ''n/a'') = NoValue
   \<and> clean_amount_with_currency (Some ''1.2.3'') = None
   \<and> clean_number (Some ''1.2.3'') = Literal ''1.2.3''
   \<and> clean_num (Some ''1.2.3'') = Literal ''1.2.3''"
  using parsers_no_value[of "''n/a''"] parsers_no_value[of "''1.2.3''"] no_value_eval
  by simp

text \<open>
  Claim C4 as stated fails in the plain-number parsers: "abc" does not convert, and both
  versions return the text "abc", not null.
\<close>

theorem plain_number_unparsed_counterexample:
  "clean_number (Some ''abc'') = Literal ''abc''
   \<and> clean_num (Some ''abc'') = Literal ''abc''
   \<and> py_float (code_separator_rule (number_cleaned ''abc'')) = None
   \<and> clean_number (Some ''abc'') \<noteq> NoValue"
  by (simp add: clean_number_def clean_num_def text_eval)

end
